theory Spec2Isabelle
  imports Complex_Main "HOL-Library.Sublist"
begin

section \<open>Tables\<close>

text \<open>
  A table is a pandas DataFrame: an ordered list of named columns, each column a typed
  array. The column kinds are the ones that type inference of the sample definition and
  of \<^verbatim>\<open>pd.read_csv\<close> with default settings yields: \<^verbatim>\<open>int64\<close>, \<^verbatim>\<open>float64\<close>,
  \<^verbatim>\<open>bool\<close> and \<^verbatim>\<open>object\<close>.

  Integer cells are mathematical integers (no arithmetic is done on them). A float cell
  is a finite value, given by the rational it denotes, or one of the three special
  values; \<^verbatim>\<open>NaN\<close> is what an empty field of a numeric column is read as. An object
  column holds arbitrary cells: text, and also \<^verbatim>\<open>NaN\<close> or \<^verbatim>\<open>None\<close> where a value is
  missing.
\<close>

datatype float64 = Finite rat | NaN | PosInf | NegInf

datatype cell = IntCell int | FloatCell float64 | BoolCell bool | StrCell string | NoneCell

datatype column =
    Int64Col "int list"
  | Float64Col "float64 list"
  | BoolCol "bool list"
  | ObjectCol "cell list"

type_synonym dataframe = "(string \<times> column) list"

fun cells :: "column \<Rightarrow> cell list" where
  "cells (Int64Col vs) = map IntCell vs"
| "cells (Float64Col vs) = map FloatCell vs"
| "cells (BoolCol vs) = map BoolCell vs"
| "cells (ObjectCol vs) = vs"

text \<open>\<^verbatim>\<open>df.columns\<close>: the column labels, left to right.\<close>

definition columns :: "dataframe \<Rightarrow> string list" where
  "columns df = map fst df"

text \<open>
  The dtype test behind \<^verbatim>\<open>include=["number"]\<close>: the integer and floating-point
  kinds are numbers, the boolean and the object kind are not.
\<close>

fun is_number :: "column \<Rightarrow> bool" where
  "is_number (Int64Col _) = True"
| "is_number (Float64Col _) = True"
| "is_number (BoolCol _) = False"
| "is_number (ObjectCol _) = False"

text \<open>\<^verbatim>\<open>df.select_dtypes(include=["number"])\<close>: the sub-table of the number columns.\<close>

definition select_dtypes_number :: "dataframe \<Rightarrow> dataframe" where
  "select_dtypes_number df = filter (\<lambda>c. is_number (snd c)) df"



text \<open>
  Labels may repeat in a DataFrame. \<^verbatim>\<open>df[name]\<close> is a column exactly when the label
  names one column; under a repeated label it is a table of several columns.
\<close>

definition names_one_column :: "dataframe \<Rightarrow> string \<Rightarrow> bool" where
  "names_one_column df name \<longleftrightarrow> length (filter (\<lambda>c. fst c = name) df) = 1"

definition select_column :: "dataframe \<Rightarrow> string \<Rightarrow> column option" where
  "select_column df name =
     (case filter (\<lambda>c. fst c = name) df of [c] \<Rightarrow> Some (snd c) | _ \<Rightarrow> None)"


text \<open>
  A cell that a plot can place: not a missing value (\<^verbatim>\<open>NaN\<close>, \<^verbatim>\<open>None\<close>) and not an
  infinity.
\<close>

fun plottable :: "cell \<Rightarrow> bool" where
  "plottable (FloatCell (Finite _)) = True"
| "plottable (FloatCell _) = False"
| "plottable NoneCell = False"
| "plottable _ = True"

section \<open>Errors\<close>

text \<open>
  The exception classes that the program raises itself or lets through from the
  libraries, each with its message.
\<close>

datatype error =
    ValueError string
  | KeyError string
  | FileNotFoundError string
  | FileExistsError string
  | NotADirectoryError string
  | IsADirectoryError string
  | ParserError string

section \<open>Text of messages\<close>

text \<open>
  Names and messages are texts as byte lists (UTF-8). \<^verbatim>\<open>repr\<close> of a string, which
  \<^verbatim>\<open>{x=}\<close> in an f-string prints, belongs to the interpreter and is a parameter of the
  model (see the record of library functions below). For a text of ASCII characters it
  is the function \<open>repr_ascii\<close>: single quotes, or double quotes when the text holds a
  single quote and no double quote; the quote in use and the backslash are escaped, and
  so are the control characters. The concrete inputs below, whose names are ASCII, use it.
\<close>

definition hex_digit :: "nat \<Rightarrow> char" where
  "hex_digit n = ''0123456789abcdef'' ! (n mod 16)"

definition repr_char :: "char \<Rightarrow> char \<Rightarrow> string" where
  "repr_char q c =
     (if c = q \<or> c = CHR 0x5C then [CHR 0x5C, c]
      else if c = CHR 0x0A then [CHR 0x5C, CHR ''n'']
      else if c = CHR 0x0D then [CHR 0x5C, CHR ''r'']
      else if c = CHR 0x09 then [CHR 0x5C, CHR ''t'']
      else if (of_char c :: nat) < 32 \<or> (of_char c :: nat) = 127
        then [CHR 0x5C, CHR ''x'', hex_digit (of_char c div 16), hex_digit (of_char c)]
      else [c])"

definition repr_ascii :: "string \<Rightarrow> string" where
  "repr_ascii s =
     (let q = (if CHR 0x27 \<in> set s \<and> CHR 0x22 \<notin> set s then CHR 0x22 else CHR 0x27)
      in q # concat (map (repr_char q) s) @ [q])"

section \<open>Paths and the file system\<close>

text \<open>
  A path is the list of its components below the working directory; the empty list is
  the working directory itself, which is a directory that always exists
  (\<^verbatim>\<open>Path(".")\<close>, its own parent). A file holds its bytes.
\<close>

type_synonym path = "string list"

datatype node = File string | Dir

type_synonym filesystem = "path \<Rightarrow> node option"

fun join_path :: "string list \<Rightarrow> string" where
  "join_path [] = []"
| "join_path [a] = a"
| "join_path (a # b # bs) = a @ ''/'' @ join_path (b # bs)"

definition str_path :: "path \<Rightarrow> string" where
  "str_path p = (if p = [] then ''.'' else join_path p)"

definition parent :: "path \<Rightarrow> path" where
  "parent p = butlast p"

definition path_exists :: "filesystem \<Rightarrow> path \<Rightarrow> bool" where
  "path_exists fs p \<longleftrightarrow> p = [] \<or> fs p \<noteq> None"

definition is_dir :: "filesystem \<Rightarrow> path \<Rightarrow> bool" where
  "is_dir fs p \<longleftrightarrow> p = [] \<or> fs p = Some Dir"

text \<open>\<^verbatim>\<open>os.mkdir\<close>: one directory, below a directory that exists. The error carries the path.\<close>

definition os_mkdir :: "path \<Rightarrow> filesystem \<Rightarrow> error + filesystem" where
  "os_mkdir p fs =
     (if \<not> path_exists fs (parent p) then Inl (FileNotFoundError (str_path p))
      else if \<not> is_dir fs (parent p) then Inl (NotADirectoryError (str_path p))
      else if path_exists fs p then Inl (FileExistsError (str_path p))
      else Inr (fs(p \<mapsto> Dir)))"

text \<open>
  \<^verbatim>\<open>Path.mkdir(parents, exist_ok)\<close> as pathlib writes it: try \<^verbatim>\<open>os.mkdir\<close>; when the
  parent is missing and \<^verbatim>\<open>parents\<close> is set, make the parent first and try again without
  \<^verbatim>\<open>parents\<close>; any other failure is ignored exactly when \<^verbatim>\<open>exist_ok\<close> is set and the
  path is a directory.
\<close>

function mkdir :: "path \<Rightarrow> bool \<Rightarrow> bool \<Rightarrow> filesystem \<Rightarrow> error + filesystem" where
  "mkdir p parents exist_ok fs =
     (case os_mkdir p fs of
        Inr fs' \<Rightarrow> Inr fs'
      | Inl (FileNotFoundError m) \<Rightarrow>
          (if \<not> parents \<or> parent p = p then Inl (FileNotFoundError m)
           else (case mkdir (parent p) True True fs of
                   Inl e \<Rightarrow> Inl e
                 | Inr fs' \<Rightarrow> mkdir p False exist_ok fs'))
      | Inl e \<Rightarrow> (if \<not> exist_ok \<or> \<not> is_dir fs p then Inl e else Inr fs))"
  by pat_completeness auto
termination
proof (relation "measure (\<lambda>(p, parents, exist_ok, fs). 2 * length p + (if parents then 1 else 0))")
  show "wf (measure (\<lambda>(p, parents, exist_ok, fs). 2 * length p + (if parents then 1 else 0)))"
    by simp
next
  fix p :: path and parents exist_ok :: bool and fs :: filesystem and a x1
  assume "\<not> (\<not> parents \<or> parent p = p)"
  then have "p \<noteq> []" and parents
    by (auto simp: parent_def)
  then show "((parent p, True, True, fs), p, parents, exist_ok, fs)
      \<in> measure (\<lambda>(p, parents, exist_ok, fs). 2 * length p + (if parents then 1 else 0))"
    by (simp add: parent_def)
next
  fix p :: path and parents exist_ok :: bool and fs :: filesystem and a x1 x2
  assume "\<not> (\<not> parents \<or> parent p = p)"
  then show "((p, False, exist_ok, x2), p, parents, exist_ok, fs)
      \<in> measure (\<lambda>(p, parents, exist_ok, fs). 2 * length p + (if parents then 1 else 0))"
    by simp
qed

declare mkdir.simps [simp del]

section \<open>Figures and the plotting state\<close>

text \<open>
  A figure is what the program puts into it: the scatter series, the title and whether the
  automatic layout was applied. Each figure has the number under which
  \<^verbatim>\<open>matplotlib.pyplot\<close> keeps it open until it is closed. How a figure is drawn is the
  library's business and is a parameter below.
\<close>

record figure =
  fig_number :: nat
  fig_points :: "(cell \<times> cell) list"
  fig_title :: string
  fig_tight :: bool

text \<open>The state that the program reads and changes: the files and the open figures.\<close>

record world =
  filesystem :: filesystem
  open_figures :: "nat list"

text \<open>
  The library functions whose results the program passes on without looking at them:
  the CSV parser on the bytes of a file, the encoder of a figure in a format at a
  resolution, \<^verbatim>\<open>repr\<close> on a string, and the message with which the plotting library
  refuses data it cannot use. The theorems hold for every choice of them.
\<close>

record library =
  pd_read_csv :: "string \<Rightarrow> error + dataframe"
  print_figure :: "figure \<Rightarrow> string \<Rightarrow> nat \<Rightarrow> string"
  py_repr :: "string \<Rightarrow> string"
  sns_refusal :: "dataframe \<Rightarrow> string \<Rightarrow> string \<Rightarrow> string"

text \<open>\<^verbatim>\<open>plt.subplots()\<close>: a new empty figure under the next free number.\<close>

definition plt_subplots :: "world \<Rightarrow> figure \<times> world" where
  "plt_subplots w =
     (let n = Suc (fold max (open_figures w) 0)
      in (\<lparr>fig_number = n, fig_points = [], fig_title = [], fig_tight = False\<rparr>,
          w\<lparr>open_figures := open_figures w @ [n]\<rparr>))"

text \<open>\<^verbatim>\<open>plt.close(fig)\<close>: the figure is no longer open.\<close>

definition plt_close :: "figure \<Rightarrow> world \<Rightarrow> world" where
  "plt_close fig w = w\<lparr>open_figures := removeAll (fig_number fig) (open_figures w)\<rparr>"

text \<open>
  \<^verbatim>\<open>sns.scatterplot(x=x, y=y, data=df, ax=ax)\<close>: the two named columns are paired row
  by row; the rows in which either coordinate is missing or infinite are dropped, and the
  remaining pairs become the series of the axes. The call is refused with a
  \<^verbatim>\<open>ValueError\<close> when a name does not select one column of the data: the label is
  absent or repeated.
\<close>

definition sns_scatterplot ::
  "library \<Rightarrow> string \<Rightarrow> string \<Rightarrow> dataframe \<Rightarrow> figure \<Rightarrow> error + figure" where
  "sns_scatterplot lib x y df fig =
     (case (select_column df x, select_column df y) of
        (Some cx, Some cy) \<Rightarrow>
          Inr (fig\<lparr>fig_points := fig_points fig @
                 filter (\<lambda>(a, b). plottable a \<and> plottable b) (zip (cells cx) (cells cy))\<rparr>)
      | _ \<Rightarrow> Inl (ValueError (sns_refusal lib df x y)))"

definition set_title :: "string \<Rightarrow> figure \<Rightarrow> figure" where
  "set_title t fig = fig\<lparr>fig_title := t\<rparr>"

definition tight_layout :: "figure \<Rightarrow> figure" where
  "tight_layout fig = fig\<lparr>fig_tight := True\<rparr>"

text \<open>
  \<^verbatim>\<open>fig.savefig(path, format=fmt, dpi=dpi)\<close>: the encoded figure replaces the file at the
  path; the path must not be a directory and its parent must be one.
\<close>

definition savefig :: "library \<Rightarrow> figure \<Rightarrow> path \<Rightarrow> string \<Rightarrow> nat \<Rightarrow> world \<Rightarrow> error + world" where
  "savefig lib fig p fmt dpi w =
     (if is_dir (filesystem w) p then Inl (IsADirectoryError (str_path p))
      else if \<not> path_exists (filesystem w) (parent p) then Inl (FileNotFoundError (str_path p))
      else if \<not> is_dir (filesystem w) (parent p) then Inl (NotADirectoryError (str_path p))
      else Inr (w\<lparr>filesystem := (filesystem w)(p \<mapsto> File (print_figure lib fig fmt dpi))\<rparr>))"

section \<open>Column classifier\<close>

definition get_numeric_columns :: "dataframe \<Rightarrow> error + string list" where
  "get_numeric_columns df =
     (let numeric_cols = columns (select_dtypes_number df)
      in if numeric_cols = [] then Inl (ValueError ''No numeric columns found in the dataset.'')
         else Inr numeric_cols)"

definition sample_df :: dataframe where
  "sample_df =
     [(''x'', Int64Col [1, 2, 3, 4, 5]),
      (''y'', Int64Col [2, 1, 3, 5, 4]),
      (''z'', Float64Col [Finite 10, Finite (23 / 2), Finite 9, Finite 12, Finite (21 / 2)]),
      (''cat'', ObjectCol [StrCell ''a'', StrCell ''a'', StrCell ''b'', StrCell ''b'', StrCell ''a''])]"

section \<open>Plot renderer\<close>

definition scatter_figure ::
  "library \<Rightarrow> dataframe \<Rightarrow> string \<Rightarrow> string \<Rightarrow> world \<Rightarrow> (error + figure) \<times> world" where
  "scatter_figure lib df x y w =
     (if x \<notin> set (columns df) \<or> y \<notin> set (columns df)
      then (Inl (KeyError (''Columns not in DataFrame: x='' @ py_repr lib x
                            @ '', y='' @ py_repr lib y)), w)
      else
        (let (fig, w1) = plt_subplots w
         in case sns_scatterplot lib x y df fig of
              Inl e \<Rightarrow> (Inl e, w1)
            | Inr fig1 \<Rightarrow>
                (Inr (tight_layout (set_title (''Scatter: '' @ x @ '' vs '' @ y) fig1)), w1)))"

section \<open>Data loader\<close>

text \<open>\<^verbatim>\<open>pd.read_csv(path)\<close>: open the file, then parse its bytes.\<close>

definition read_csv :: "library \<Rightarrow> path \<Rightarrow> world \<Rightarrow> error + dataframe" where
  "read_csv lib p w =
     (if is_dir (filesystem w) p then Inl (IsADirectoryError (str_path p))
      else case filesystem w p of
             None \<Rightarrow> Inl (FileNotFoundError (str_path p))
           | Some Dir \<Rightarrow> Inl (IsADirectoryError (str_path p))
           | Some (File bytes) \<Rightarrow> pd_read_csv lib bytes)"

section \<open>Headless variant\<close>

text \<open>\<^verbatim>\<open>a, b = xs\<close>: unpacking into two targets needs exactly two values.\<close>

fun unpack2 :: "string list \<Rightarrow> error + string \<times> string" where
  "unpack2 [] = Inl (ValueError ''not enough values to unpack (expected 2, got 0)'')"
| "unpack2 [a] = Inl (ValueError ''not enough values to unpack (expected 2, got 1)'')"
| "unpack2 [a, b] = Inr (a, b)"
| "unpack2 (a # b # c # cs) = Inl (ValueError ''too many values to unpack (expected 2)'')"

text \<open>The first lines of \<^verbatim>\<open>run_cli\<close>: the sample table, or the file if it exists.\<close>

definition load :: "library \<Rightarrow> path option \<Rightarrow> world \<Rightarrow> error + dataframe" where
  "load lib input_csv w =
     (case input_csv of
        None \<Rightarrow> Inr sample_df
      | Some p \<Rightarrow>
          if \<not> path_exists (filesystem w) p
          then Inl (FileNotFoundError (''CSV not found: '' @ str_path p))
          else read_csv lib p w)"

text \<open>The choice of the two axes: both from the numeric columns unless both are given.\<close>

definition choose_axes :: "string list \<Rightarrow> string option \<Rightarrow> string option \<Rightarrow> error + string \<times> string" where
  "choose_axes numeric_columns x y =
     (case (x, y) of
        (Some x', Some y') \<Rightarrow> Inr (x', y')
      | _ \<Rightarrow> unpack2 (take 2 numeric_columns))"

text \<open>The last lines of \<^verbatim>\<open>run_cli\<close>: directories, file, release of the figure.\<close>

definition export_figure :: "library \<Rightarrow> figure \<Rightarrow> path \<Rightarrow> world \<Rightarrow> (error + path) \<times> world" where
  "export_figure lib fig out_path w =
     (case mkdir (parent out_path) True True (filesystem w) of
        Inl e \<Rightarrow> (Inl e, w)
      | Inr fs' \<Rightarrow>
          (case savefig lib fig out_path ''png'' 144 (w\<lparr>filesystem := fs'\<rparr>) of
             Inl e \<Rightarrow> (Inl e, w\<lparr>filesystem := fs'\<rparr>)
           | Inr w' \<Rightarrow> (Inr out_path, plt_close fig w')))"

definition run_cli ::
  "library \<Rightarrow> path option \<Rightarrow> string option \<Rightarrow> string option \<Rightarrow> path \<Rightarrow> world \<Rightarrow> (error + path) \<times> world" where
  "run_cli lib input_csv x y out_path w =
     (case load lib input_csv w of
        Inl e \<Rightarrow> (Inl e, w)
      | Inr df \<Rightarrow>
          (case get_numeric_columns df of
             Inl e \<Rightarrow> (Inl e, w)
           | Inr numeric_columns \<Rightarrow>
               (case choose_axes numeric_columns x y of
                  Inl e \<Rightarrow> (Inl e, w)
                | Inr (x', y') \<Rightarrow>
                    (case scatter_figure lib df x' y' w of
                       (Inl e, w1) \<Rightarrow> (Inl e, w1)
                     | (Inr fig, w1) \<Rightarrow> export_figure lib fig out_path w1))))"

section \<open>Entry dispatcher\<close>

record args =
  arg_csv :: "path option"
  arg_x :: "string option"
  arg_y :: "string option"
  arg_out :: path
  arg_test :: bool

text \<open>Truth values of the argument objects: a path is always true, a string when not empty.\<close>

definition truthy_path :: "path option \<Rightarrow> bool" where
  "truthy_path p \<longleftrightarrow> p \<noteq> None"

definition truthy_str :: "string option \<Rightarrow> bool" where
  "truthy_str s \<longleftrightarrow> (case s of None \<Rightarrow> False | Some t \<Rightarrow> t \<noteq> [])"

text \<open>
  What one run of \<^verbatim>\<open>main\<close> did: which part ran, what was printed, and the exception
  that ended it, if any. The self-test and the steps of the interactive variant are
  driven from outside (the test runner, the widgets) and are not followed further.
\<close>

datatype variant = SelfTest | Headless | Interactive

record run =
  ran :: variant
  printed :: "string list"
  raised :: "error option"

definition cli_run :: "library \<Rightarrow> args \<Rightarrow> string list \<Rightarrow> world \<Rightarrow> run \<times> world" where
  "cli_run lib a before w =
     (case run_cli lib (arg_csv a) (arg_x a) (arg_y a) (arg_out a) w of
        (Inl e, w') \<Rightarrow> (\<lparr>ran = Headless, printed = before, raised = Some e\<rparr>, w')
      | (Inr out, w') \<Rightarrow>
          (\<lparr>ran = Headless, printed = before @ [''Saved: '' @ str_path out], raised = None\<rparr>, w'))"

definition no_streamlit_notice :: string where
  "no_streamlit_notice =
     ''streamlit not installed; running in CLI mode. To use UI, install with `pip install streamlit`.''
     @ [CHR 0x0A]"

definition main :: "library \<Rightarrow> bool \<Rightarrow> args \<Rightarrow> world \<Rightarrow> run \<times> world" where
  "main lib has_streamlit a w =
     (if arg_test a then (\<lparr>ran = SelfTest, printed = [], raised = None\<rparr>, w)
      else if has_streamlit then
        (if (truthy_path (arg_csv a) \<or> truthy_str (arg_x a) \<or> truthy_str (arg_y a))
            \<or> arg_out a \<noteq> [''plot.png'']
         then cli_run lib a [] w
         else (\<lparr>ran = Interactive, printed = [], raised = None\<rparr>, w))
      else cli_run lib a [no_streamlit_notice] w)"

section \<open>Concrete inputs\<close>

text \<open>
  Inputs on which the theorems below are run: a state with no files and no open figure,
  a state with one file, a table with a single numeric column, a table with a missing
  value, a table with a repeated label, and a library whose parser answers with a given
  table.
\<close>

definition empty_world :: world where
  "empty_world = \<lparr>filesystem = Map.empty, open_figures = []\<rparr>"

definition world_with_file :: "path \<Rightarrow> world" where
  "world_with_file p = \<lparr>filesystem = [p \<mapsto> File []], open_figures = []\<rparr>"

definition one_numeric_df :: dataframe where
  "one_numeric_df = [(''a'', Int64Col [1, 2]), (''name'', ObjectCol [StrCell ''u'', StrCell ''v''])]"



definition stub_library :: "dataframe \<Rightarrow> library" where
  "stub_library df =
     \<lparr>pd_read_csv = (\<lambda>bytes. Inr df), print_figure = (\<lambda>fig fmt dpi. ''PNG''),
      py_repr = repr_ascii, sns_refusal = (\<lambda>df x y. ''refused'')\<rparr>"

section \<open>Properties of the classifier\<close>

lemma columns_select_subseq: "subseq (columns (select_dtypes_number df)) (columns df)"
  unfolding columns_def select_dtypes_number_def
  by (induction df) auto

lemma columns_select_set:
  "set (columns (select_dtypes_number df)) = {n. \<exists>c. (n, c) \<in> set df \<and> is_number c}"
  unfolding columns_def select_dtypes_number_def
  by force

lemma columns_select_empty:
  "columns (select_dtypes_number df) = [] \<longleftrightarrow> (\<forall>c \<in> set df. \<not> is_number (snd c))"
  unfolding columns_def select_dtypes_number_def
  by (simp add: filter_empty_conv)

text \<open>
  Claim C1. For the fixed sample table the classifier returns exactly the list
  x, y, z in that order; the text column cat is left out.
\<close>

theorem sample_numeric_columns:
  "get_numeric_columns sample_df = Inr [''x'', ''y'', ''z'']"
  by (simp add: get_numeric_columns_def sample_df_def select_dtypes_number_def columns_def)

lemma filter_positions:
  "filter P xs = map (nth xs) (filter (\<lambda>i. P (xs ! i)) [0..<length xs])"
proof -
  have "filter P (map (nth xs) [0..<length xs]) =
      map (nth xs) (filter (P \<circ> nth xs) [0..<length xs])"
    by (rule filter_map)
  then show ?thesis
    by (simp add: map_nth o_def)
qed

text \<open>
  Claim C4. For every table the classifier fails, with the error that says that there is
  no numeric data, exactly when no column of the table is numeric (of the integer or the
  floating-point kind; text and booleans are not); otherwise it returns the names at the
  numeric positions of the table, from left to right.
\<close>

theorem get_numeric_columns_spec:
  "((\<exists>e. get_numeric_columns df = Inl e) \<longleftrightarrow> (\<forall>c \<in> set df. \<not> is_number (snd c)))
   \<and> ((\<forall>c \<in> set df. \<not> is_number (snd c)) \<longrightarrow>
        get_numeric_columns df = Inl (ValueError ''No numeric columns found in the dataset.''))
   \<and> ((\<exists>c \<in> set df. is_number (snd c)) \<longrightarrow>
        get_numeric_columns df =
          Inr (map (\<lambda>i. fst (df ! i)) (filter (\<lambda>i. is_number (snd (df ! i))) [0..<length df])))"
proof -
  have pos: "columns (select_dtypes_number df) =
      map (\<lambda>i. fst (df ! i)) (filter (\<lambda>i. is_number (snd (df ! i))) [0..<length df])"
    unfolding columns_def select_dtypes_number_def
    by (subst filter_positions) (simp add: o_def)
  show ?thesis
    using columns_select_empty [of df] pos
    by (auto simp: get_numeric_columns_def Let_def)
qed

theorem get_numeric_columns_spec_witness:
  "(\<exists>c \<in> set one_numeric_df. is_number (snd c)) \<and>
   get_numeric_columns one_numeric_df = Inr [''a''] \<and>
   \<not> is_number (ObjectCol [StrCell ''a'']) \<and> \<not> is_number (BoolCol [True]) \<and>
   get_numeric_columns [(''cat'', ObjectCol [StrCell ''a'']), (''flag'', BoolCol [True])] =
     Inl (ValueError ''No numeric columns found in the dataset.'')"
  using get_numeric_columns_spec [of one_numeric_df]
    get_numeric_columns_spec [of "[(''cat'', ObjectCol [StrCell ''a'']), (''flag'', BoolCol [True])]"]
  by (simp add: one_numeric_df_def upt_rec)

section \<open>Properties of the renderer\<close>

lemma scatter_figure_absent:
  "x \<notin> set (columns df) \<or> y \<notin> set (columns df) \<Longrightarrow>
   scatter_figure lib df x y w =
     (Inl (KeyError (''Columns not in DataFrame: x='' @ py_repr lib x
                      @ '', y='' @ py_repr lib y)), w)"
  by (simp add: scatter_figure_def)

lemma scatter_figure_plotted:
  assumes "select_column df x = Some cx" and "select_column df y = Some cy"
    and "x \<in> set (columns df)" and "y \<in> set (columns df)"
  shows "scatter_figure lib df x y w =
     (Inr \<lparr>fig_number = Suc (fold max (open_figures w) 0),
           fig_points = filter (\<lambda>(a, b). plottable a \<and> plottable b) (zip (cells cx) (cells cy)),
           fig_title = ''Scatter: '' @ x @ '' vs '' @ y,
           fig_tight = True\<rparr>,
      w\<lparr>open_figures := open_figures w @ [Suc (fold max (open_figures w) 0)]\<rparr>)"
  using assms
  by (simp add: scatter_figure_def plt_subplots_def sns_scatterplot_def set_title_def
      tight_layout_def Let_def)

lemma scatter_figure_refused:
  assumes "select_column df x = None \<or> select_column df y = None"
    and "x \<in> set (columns df)" and "y \<in> set (columns df)"
  shows "scatter_figure lib df x y w =
     (Inl (ValueError (sns_refusal lib df x y)),
      w\<lparr>open_figures := open_figures w @ [Suc (fold max (open_figures w) 0)]\<rparr>)"
  using assms
  by (auto simp: scatter_figure_def plt_subplots_def sns_scatterplot_def Let_def
      split: option.splits)

lemma scatter_figure_no_key_error:
  assumes "x \<in> set (columns df)" and "y \<in> set (columns df)"
  shows "fst (scatter_figure lib df x y w) \<noteq> Inl (KeyError m)"
proof (cases "select_column df x = None \<or> select_column df y = None")
  case True
  then show ?thesis
    using scatter_figure_refused [OF True assms] by simp
next
  case False
  then obtain cx cy where "select_column df x = Some cx" and "select_column df y = Some cy"
    by auto
  then show ?thesis
    using scatter_figure_plotted [OF _ _ assms] by simp
qed

lemma select_column_one:
  assumes "names_one_column df name"
  shows "\<exists>c. select_column df name = Some c \<and> map_of df name = Some c \<and> (name, c) \<in> set df"
proof -
  from assms obtain e where e: "filter (\<lambda>c. fst c = name) df = [e]"
    by (auto simp: names_one_column_def length_Suc_conv)
  then have "e \<in> set (filter (\<lambda>c. fst c = name) df)"
    by simp
  then have mem: "e \<in> set df" and nm: "fst e = name"
    by simp_all
  have "map_of (filter (\<lambda>c. fst c = name) df) name = map_of df name"
    by (induction df) auto
  then have "map_of df name = Some (snd e)"
    using e nm by (cases e) auto
  moreover have "select_column df name = Some (snd e)"
    using e by (simp add: select_column_def)
  moreover have "(name, snd e) \<in> set df"
    using mem nm by (cases e) auto
  ultimately show ?thesis
    by blast
qed




text \<open>
  Claim C3, amended. For every table and every pair of names the renderer fails with the
  column-not-found error exactly when at least one of the two names is not a column of
  the table. The message of that error shows both requested names, the x name and the
  y name as \<^verbatim>\<open>repr\<close> prints them, whichever of them is missing; it does not tell
  which name was missing. Nothing else is changed by the failure.
\<close>

theorem scatter_figure_column_check:
  "((\<exists>m. fst (scatter_figure lib df x y w) = Inl (KeyError m)) \<longleftrightarrow>
      (x \<notin> set (columns df) \<or> y \<notin> set (columns df)))
   \<and> ((x \<notin> set (columns df) \<or> y \<notin> set (columns df)) \<longrightarrow>
        scatter_figure lib df x y w =
          (Inl (KeyError (''Columns not in DataFrame: x='' @ py_repr lib x
                           @ '', y='' @ py_repr lib y)), w))"
proof (cases "x \<notin> set (columns df) \<or> y \<notin> set (columns df)")
  case True
  then show ?thesis
    using scatter_figure_absent [of x df y lib w] by simp
next
  case False
  then show ?thesis
    using scatter_figure_no_key_error [of x df y lib w] by simp
qed

theorem scatter_figure_column_check_witness:
  "''x'' \<in> set (columns sample_df) \<and> ''q'' \<notin> set (columns sample_df) \<and>
   scatter_figure (stub_library sample_df) sample_df ''x'' ''q'' empty_world =
     (Inl (KeyError (''Columns not in DataFrame: x='' @ [CHR 0x27] @ ''x'' @ [CHR 0x27]
                      @ '', y='' @ [CHR 0x27] @ ''q'' @ [CHR 0x27])), empty_world)"
  using scatter_figure_column_check [of "stub_library sample_df" sample_df "''x''" "''q''" empty_world]
  by (simp add: sample_df_def columns_def stub_library_def repr_ascii_def repr_char_def Let_def)

text \<open>
  Against claim C3 as stated: the message does not tell which name was missing. With the
  names a and b requested, a table that has only a and a table that has only b are
  refused with one and the same error.
\<close>

theorem scatter_figure_message_counterexample:
  "fst (scatter_figure (stub_library sample_df) [(''a'', Int64Col [1])] ''a'' ''b'' empty_world) =
     fst (scatter_figure (stub_library sample_df) [(''b'', Int64Col [1])] ''a'' ''b'' empty_world)
   \<and> ''a'' \<in> set (columns [(''a'', Int64Col [1])]) \<and> ''b'' \<notin> set (columns [(''a'', Int64Col [1])])
   \<and> ''a'' \<notin> set (columns [(''b'', Int64Col [1])]) \<and> ''b'' \<in> set (columns [(''b'', Int64Col [1])])"
  by (simp add: scatter_figure_def columns_def)




section \<open>Properties of the headless variant\<close>

lemma numeric_columns_in_table:
  assumes "get_numeric_columns df = Inr nc" and "i < length nc"
  shows "nc ! i \<in> set (columns df)"
proof -
  from assms(1) have "nc = columns (select_dtypes_number df)"
    by (simp add: get_numeric_columns_def Let_def split: if_splits)
  then have "set nc \<subseteq> set (columns df)"
    using columns_select_set [of df] by (force simp: columns_def)
  with assms(2) show ?thesis
    using nth_mem by blast
qed

lemma choose_axes_unset:
  assumes "x = None \<or> y = None"
  shows "choose_axes nc x y = unpack2 (take 2 nc)"
  using assms by (auto simp: choose_axes_def split: option.splits)

lemma unpack2_take2:
  assumes "2 \<le> length nc"
  shows "unpack2 (take 2 nc) = Inr (nc ! 0, nc ! 1)"
proof -
  from assms obtain a b cs where "nc = a # b # cs"
    by (cases nc; cases "tl nc") auto
  then show ?thesis
    by simp
qed

text \<open>
  Claim C2, amended. For every table whose list of numeric columns has at least two
  entries: when the x name or the y name is unset, the headless variant runs exactly as
  it does with the first and the second numeric column given as x and y, so a name given
  for one axis alone is discarded. The run is the rendering of those two columns followed
  by the export of the figure; the rendering is never refused for a missing column, and
  it yields the figure titled with the two names whenever each of them names one column.
\<close>

theorem run_cli_default_axes:
  assumes "x = None \<or> y = None"
    and "load lib input_csv w = Inr df"
    and "get_numeric_columns df = Inr nc"
    and "2 \<le> length nc"
  shows "run_cli lib input_csv x y out w =
           run_cli lib input_csv (Some (nc ! 0)) (Some (nc ! 1)) out w
     \<and> run_cli lib input_csv x y out w =
           (case scatter_figure lib df (nc ! 0) (nc ! 1) w of
              (Inl e, w1) \<Rightarrow> (Inl e, w1)
            | (Inr fig, w1) \<Rightarrow> export_figure lib fig out w1)
     \<and> (\<forall>m. fst (scatter_figure lib df (nc ! 0) (nc ! 1) w) \<noteq> Inl (KeyError m))
     \<and> (names_one_column df (nc ! 0) \<and> names_one_column df (nc ! 1) \<longrightarrow>
          (\<exists>fig w1. scatter_figure lib df (nc ! 0) (nc ! 1) w = (Inr fig, w1)
             \<and> fig_title fig = ''Scatter: '' @ nc ! 0 @ '' vs '' @ nc ! 1
             \<and> run_cli lib input_csv x y out w = export_figure lib fig out w1))"
proof -
  have ax: "choose_axes nc x y = Inr (nc ! 0, nc ! 1)"
    using assms(1,4) by (simp add: choose_axes_unset unpack2_take2)
  have ax': "choose_axes nc (Some (nc ! 0)) (Some (nc ! 1)) = Inr (nc ! 0, nc ! 1)"
    by (simp add: choose_axes_def)
  have "0 < length nc" and "1 < length nc"
    using assms(4) by linarith+
  then have present: "nc ! 0 \<in> set (columns df)" "nc ! 1 \<in> set (columns df)"
    using assms(3) numeric_columns_in_table by blast+
  have same: "run_cli lib input_csv x y out w =
      run_cli lib input_csv (Some (nc ! 0)) (Some (nc ! 1)) out w"
    using assms(2,3) ax ax' by (simp add: run_cli_def)
  have render: "run_cli lib input_csv x y out w =
      (case scatter_figure lib df (nc ! 0) (nc ! 1) w of
         (Inl e, w1) \<Rightarrow> (Inl e, w1)
       | (Inr fig, w1) \<Rightarrow> export_figure lib fig out w1)"
    using assms(2,3) ax by (simp add: run_cli_def split: prod.splits sum.splits)
  have nokey: "\<forall>m. fst (scatter_figure lib df (nc ! 0) (nc ! 1) w) \<noteq> Inl (KeyError m)"
    using scatter_figure_no_key_error [OF present] by blast
  have plotted: "\<exists>fig w1. scatter_figure lib df (nc ! 0) (nc ! 1) w = (Inr fig, w1)
        \<and> fig_title fig = ''Scatter: '' @ nc ! 0 @ '' vs '' @ nc ! 1
        \<and> run_cli lib input_csv x y out w = export_figure lib fig out w1"
    if one: "names_one_column df (nc ! 0) \<and> names_one_column df (nc ! 1)"
  proof -
    from one obtain cx cy where "select_column df (nc ! 0) = Some cx"
      and "select_column df (nc ! 1) = Some cy"
      using select_column_one by blast
    then show ?thesis
      using render scatter_figure_plotted [OF _ _ present, of cx cy lib w] by simp
  qed
  show ?thesis
    using same render nokey plotted by blast
qed

lemma sample_df_numeric: "get_numeric_columns sample_df = Inr [''x'', ''y'', ''z'']"
  by (simp add: get_numeric_columns_def sample_df_def select_dtypes_number_def columns_def)

theorem run_cli_default_axes_witness:
  "load (stub_library sample_df) None empty_world = Inr sample_df \<and>
   get_numeric_columns sample_df = Inr [''x'', ''y'', ''z''] \<and>
   run_cli (stub_library sample_df) None (Some ''z'') None [''plot.png''] empty_world =
     run_cli (stub_library sample_df) None (Some ''x'') (Some ''y'') [''plot.png''] empty_world \<and>
   names_one_column sample_df ''x'' \<and> names_one_column sample_df ''y'' \<and>
   fig_title (projr (fst (scatter_figure (stub_library sample_df) sample_df ''x'' ''y''
       empty_world))) = ''Scatter: x vs y''"
proof -
  have l: "load (stub_library sample_df) None empty_world = Inr sample_df"
    by (simp add: load_def)
  have n: "(2::nat) \<le> length [''x'', ''y'', ''z'']"
    by simp
  have u: "Some ''z'' = None \<or> (None :: string option) = None"
    by simp
  have one: "names_one_column sample_df ''x''" "names_one_column sample_df ''y''"
    by (simp_all add: names_one_column_def sample_df_def)
  note t = run_cli_default_axes [OF u l sample_df_numeric n, of "[''plot.png'']"]
  from t have same: "run_cli (stub_library sample_df) None (Some ''z'') None [''plot.png'']
        empty_world =
      run_cli (stub_library sample_df) None (Some ''x'') (Some ''y'') [''plot.png''] empty_world"
    by simp
  from t one obtain fig w1 where
    "scatter_figure (stub_library sample_df) sample_df ''x'' ''y'' empty_world = (Inr fig, w1)"
    and "fig_title fig = ''Scatter: x vs y''"
    by auto
  then have ttl: "fig_title (projr (fst (scatter_figure (stub_library sample_df) sample_df
      ''x'' ''y'' empty_world))) = ''Scatter: x vs y''"
    by simp
  show ?thesis
    using l sample_df_numeric same one ttl by simp
qed

lemma one_numeric: "get_numeric_columns one_numeric_df = Inr [''a'']"
  by (simp add: get_numeric_columns_def one_numeric_df_def select_dtypes_number_def columns_def)

lemma load_data_csv:
  "load (stub_library df) (Some [''data.csv'']) (world_with_file [''data.csv'']) = Inr df"
  by (simp add: load_def read_csv_def stub_library_def world_with_file_def path_exists_def
      is_dir_def)

text \<open>
  Against claim C2 as stated for every table: on a table with one numeric column, with x
  given and y unset, no pair of columns is chosen; the run ends in an error.
\<close>

theorem run_cli_default_axes_counterexample:
  "get_numeric_columns one_numeric_df = Inr [''a''] \<and>
   run_cli (stub_library one_numeric_df) (Some [''data.csv'']) (Some ''a'') None [''plot.png'']
       (world_with_file [''data.csv'']) =
     (Inl (ValueError ''not enough values to unpack (expected 2, got 1)''),
      world_with_file [''data.csv''])"
  by (simp add: run_cli_def load_data_csv one_numeric choose_axes_def)

text \<open>
  Claim C9. For every loaded table whose list of numeric columns has exactly one entry,
  the headless variant with x or y unset fails with the error of unpacking one value
  into two targets; nothing is plotted or written, and the error is none of the
  documented ones (input not found, no numeric columns, column not found, parse error).
\<close>

theorem run_cli_single_numeric_column:
  assumes "load lib input_csv w = Inr df"
    and "get_numeric_columns df = Inr [c]"
    and "x = None \<or> y = None"
  shows "run_cli lib input_csv x y out w =
           (Inl (ValueError ''not enough values to unpack (expected 2, got 1)''), w)
     \<and> ValueError ''not enough values to unpack (expected 2, got 1)''
          \<noteq> ValueError ''No numeric columns found in the dataset.''
     \<and> (\<forall>m. ValueError ''not enough values to unpack (expected 2, got 1)''
          \<notin> {FileNotFoundError m, KeyError m, ParserError m})"
  using assms by (simp add: run_cli_def choose_axes_unset)

theorem run_cli_single_numeric_column_witness:
  "load (stub_library one_numeric_df) (Some [''data.csv'']) (world_with_file [''data.csv''])
     = Inr one_numeric_df \<and>
   get_numeric_columns one_numeric_df = Inr [''a''] \<and>
   run_cli (stub_library one_numeric_df) (Some [''data.csv'']) None None [''out'', ''p.png'']
       (world_with_file [''data.csv'']) =
     (Inl (ValueError ''not enough values to unpack (expected 2, got 1)''),
      world_with_file [''data.csv''])"
proof -
  have u: "(None :: string option) = None \<or> (None :: string option) = None"
    by simp
  show ?thesis
    using run_cli_single_numeric_column [OF load_data_csv one_numeric u, of "[''out'', ''p.png'']"]
      load_data_csv [of one_numeric_df] one_numeric
    by simp
qed

text \<open>
  Claim C6. For every input path that does not exist, the headless variant fails with
  the file-not-found error for that path, whatever the parser, the names and the output
  path are, and leaves the files and the open figures as they were: nothing is parsed,
  classified or rendered. The dispatcher passes the same error on.
\<close>

theorem run_cli_input_not_found:
  assumes "\<not> path_exists (filesystem w) p"
  shows "run_cli lib (Some p) x y out w =
           (Inl (FileNotFoundError (''CSV not found: '' @ str_path p)), w)
     \<and> (arg_csv a = Some p \<and> \<not> arg_test a \<longrightarrow>
          main lib has_streamlit a w =
            (\<lparr>ran = Headless,
              printed = (if has_streamlit then [] else [no_streamlit_notice]),
              raised = Some (FileNotFoundError (''CSV not found: '' @ str_path p))\<rparr>, w))"
proof -
  have r: "run_cli lib (Some p) x' y' out' w =
      (Inl (FileNotFoundError (''CSV not found: '' @ str_path p)), w)" for x' y' out'
    using assms by (simp add: run_cli_def load_def)
  show ?thesis
    by (auto simp: r main_def cli_run_def truthy_path_def)
qed

theorem run_cli_input_not_found_witness:
  "\<not> path_exists (filesystem empty_world) [''data'', ''missing.csv''] \<and>
   run_cli (stub_library sample_df) (Some [''data'', ''missing.csv'']) (Some ''x'') (Some ''y'')
       [''plot.png''] empty_world =
     (Inl (FileNotFoundError ''CSV not found: data/missing.csv''), empty_world) \<and>
   main (stub_library sample_df) True
       \<lparr>arg_csv = Some [''data'', ''missing.csv''], arg_x = None, arg_y = None,
        arg_out = [''plot.png''], arg_test = False\<rparr> empty_world =
     (\<lparr>ran = Headless, printed = [],
       raised = Some (FileNotFoundError ''CSV not found: data/missing.csv'')\<rparr>, empty_world)"
proof -
  have e: "\<not> path_exists (filesystem empty_world) [''data'', ''missing.csv'']"
    by (simp add: path_exists_def empty_world_def)
  show ?thesis
    using e run_cli_input_not_found [OF e, of "stub_library sample_df" "Some ''x''" "Some ''y''"
        "[''plot.png'']"
        "\<lparr>arg_csv = Some [''data'', ''missing.csv''], arg_x = None, arg_y = None,
          arg_out = [''plot.png''], arg_test = False\<rparr>" True]
    by (simp add: str_path_def)
qed

section \<open>Properties of the export\<close>

lemma os_mkdir_Inr:
  assumes "os_mkdir p fs = Inr fs'"
  shows "fs' = fs(p \<mapsto> Dir)" and "fs p = None"
  using assms by (auto simp: os_mkdir_def path_exists_def split: if_splits)

lemma mkdir_result:
  "mkdir p parents exist_ok fs = Inr fs' \<Longrightarrow>
     is_dir fs' p \<and> (\<forall>q. fs' q = fs q \<or> (fs q = None \<and> fs' q = Some Dir))"
proof (induction p parents exist_ok fs arbitrary: fs' rule: mkdir.induct)
  case (1 p parents exist_ok fs)
  show ?case
  proof (cases "os_mkdir p fs")
    case (Inr fs1)
    then have "fs' = fs1"
      using "1.prems" by (subst (asm) mkdir.simps) simp
    with Inr show ?thesis
      using os_mkdir_Inr [of p fs fs1] by (auto simp: is_dir_def)
  next
    case (Inl e)
    show ?thesis
    proof (cases "\<exists>m. e = FileNotFoundError m")
      case True
      then obtain m where e: "e = FileNotFoundError m"
        by blast
      have rec: "\<not> (\<not> parents \<or> parent p = p)"
        using "1.prems" Inl e by (subst (asm) mkdir.simps) (auto split: if_splits)
      then obtain fs1 where m1: "mkdir (parent p) True True fs = Inr fs1"
        and m2: "mkdir p False exist_ok fs1 = Inr fs'"
        using "1.prems" Inl e by (subst (asm) mkdir.simps) (auto split: if_splits sum.splits)
      have s1: "\<forall>q. fs1 q = fs q \<or> (fs q = None \<and> fs1 q = Some Dir)"
        using "1.IH"(1) [OF Inl e rec m1] by simp
      have s2: "is_dir fs' p \<and> (\<forall>q. fs' q = fs1 q \<or> (fs1 q = None \<and> fs' q = Some Dir))"
        using "1.IH"(2) [OF Inl e rec m1 m2] by simp
      show ?thesis
        using s1 s2 by metis
    next
      case False
      then have "fs' = fs \<and> is_dir fs p"
        using "1.prems" Inl
        by (subst (asm) mkdir.simps) (cases e; auto split: if_splits)
      then show ?thesis
        by simp
    qed
  qed
qed

lemma savefig_result:
  assumes "savefig lib fig p fmt dpi w = Inr w'"
  shows "w' = w\<lparr>filesystem := (filesystem w)(p \<mapsto> File (print_figure lib fig fmt dpi))\<rparr>"
    and "is_dir (filesystem w) (parent p)" and "p \<noteq> []"
  using assms by (auto simp: savefig_def is_dir_def split: if_splits)

lemma fold_max_ge: "m \<le> fold max ns (m::nat)"
proof (induction ns arbitrary: m)
  case Nil
  show ?case by simp
next
  case (Cons a ns)
  have "m \<le> max a m" by simp
  also have "max a m \<le> fold max ns (max a m)" by (rule Cons.IH)
  finally show ?case by simp
qed

lemma fold_max_upper: "n \<in> set ns \<Longrightarrow> n \<le> fold max ns (m::nat)"
proof (induction ns arbitrary: m)
  case Nil
  then show ?case by simp
next
  case (Cons a ns)
  show ?case
  proof (cases "n = a")
    case True
    have "a \<le> max a m" by simp
    also have "max a m \<le> fold max ns (max a m)" by (rule fold_max_ge)
    finally show ?thesis using True by simp
  next
    case False
    with Cons.prems have "n \<in> set ns" by simp
    then show ?thesis using Cons.IH by simp
  qed
qed

lemma scatter_figure_Inr:
  assumes "scatter_figure lib df x y w = (Inr fig, w1)"
  shows "filesystem w1 = filesystem w"
    and "open_figures w1 = open_figures w @ [fig_number fig]"
    and "fig_number fig \<notin> set (open_figures w)"
proof -
  have fresh: "Suc (fold max (open_figures w) 0) \<notin> set (open_figures w)"
    using fold_max_upper [of _ "open_figures w" 0] by (meson Suc_n_not_le_n)
  have "fig_number fig = Suc (fold max (open_figures w) 0)
      \<and> w1 = w\<lparr>open_figures := open_figures w @ [Suc (fold max (open_figures w) 0)]\<rparr>"
    using assms
    by (auto simp: scatter_figure_def plt_subplots_def sns_scatterplot_def set_title_def
        tight_layout_def Let_def split: if_splits sum.splits option.splits prod.splits)
  then show "filesystem w1 = filesystem w" "open_figures w1 = open_figures w @ [fig_number fig]"
    "fig_number fig \<notin> set (open_figures w)"
    using fresh by simp_all
qed

lemma export_figure_Inr:
  assumes "export_figure lib fig out w1 = (Inr p, w')"
  shows "p = out"
    and "\<exists>fs2 w3. mkdir (parent out) True True (filesystem w1) = Inr fs2
          \<and> savefig lib fig out ''png'' 144 (w1\<lparr>filesystem := fs2\<rparr>) = Inr w3
          \<and> w' = plt_close fig w3"
  using assms by (auto simp: export_figure_def split: sum.splits)

lemma run_cli_Inr:
  assumes "run_cli lib input_csv x y out w = (Inr p, w')"
  shows "\<exists>df x' y' fig w1. scatter_figure lib df x' y' w = (Inr fig, w1)
          \<and> export_figure lib fig out w1 = (Inr p, w')"
  using assms by (simp add: run_cli_def split: sum.splits prod.splits) blast

text \<open>
  Claim C7. Whenever the headless variant succeeds, it returns the output path, and its
  last steps were, in this order: the parent directory of the output path is made with
  all its missing ancestors, the rendered figure is written to the output path as PNG at
  144 DPI, and the figure is closed. Afterwards the parent is a directory, the file at
  the output path holds the encoded figure, every other path that existed is as it was,
  and the figure is no longer open.
\<close>

theorem run_cli_success:
  assumes "run_cli lib input_csv x y out w = (Inr p, w')"
  shows "p = out \<and>
    (\<exists>df x' y' fig w1 fs2 w3.
        scatter_figure lib df x' y' w = (Inr fig, w1)
      \<and> mkdir (parent out) True True (filesystem w1) = Inr fs2
      \<and> savefig lib fig out ''png'' 144 (w1\<lparr>filesystem := fs2\<rparr>) = Inr w3
      \<and> w' = plt_close fig w3
      \<and> is_dir (filesystem w') (parent out)
      \<and> filesystem w' out = Some (File (print_figure lib fig ''png'' 144))
      \<and> (\<forall>q. q \<noteq> out \<and> filesystem w q \<noteq> None \<longrightarrow> filesystem w' q = filesystem w q)
      \<and> fig_number fig \<notin> set (open_figures w')
      \<and> open_figures w' = open_figures w)"
proof -
  from run_cli_Inr [OF assms] obtain df x' y' fig w1 where
    sc: "scatter_figure lib df x' y' w = (Inr fig, w1)" and
    ex: "export_figure lib fig out w1 = (Inr p, w')"
    by blast
  from export_figure_Inr [OF ex] obtain fs2 w3 where
    p: "p = out" and
    mk: "mkdir (parent out) True True (filesystem w1) = Inr fs2" and
    sv: "savefig lib fig out ''png'' 144 (w1\<lparr>filesystem := fs2\<rparr>) = Inr w3" and
    cl: "w' = plt_close fig w3"
    by blast
  note s = scatter_figure_Inr [OF sc]
  note m = mkdir_result [OF mk]
  note v = savefig_result [OF sv]
  have fs': "filesystem w' = fs2(out \<mapsto> File (print_figure lib fig ''png'' 144))"
    using cl v(1) by (simp add: plt_close_def)
  have figs': "open_figures w' = removeAll (fig_number fig) (open_figures w @ [fig_number fig])"
    using cl v(1) s(2) by (simp add: plt_close_def)
  have "butlast out \<noteq> out"
    using v(3) by (metis length_butlast diff_less length_greater_0_conv less_irrefl zero_less_one)
  then have "parent out \<noteq> out"
    by (simp add: parent_def)
  then have dir: "is_dir (filesystem w') (parent out)"
    using m fs' by (auto simp: is_dir_def)
  have frame: "\<forall>q. q \<noteq> out \<and> filesystem w q \<noteq> None \<longrightarrow> filesystem w' q = filesystem w q"
    using m s(1) fs' by (metis fun_upd_other)
  have closed: "fig_number fig \<notin> set (open_figures w')" and same: "open_figures w' = open_figures w"
    using figs' s(3) by simp_all
  have written: "filesystem w' out = Some (File (print_figure lib fig ''png'' 144))"
    using fs' by simp
  show ?thesis
  proof (intro conjI exI)
    show "p = out" by (rule p)
    show "scatter_figure lib df x' y' w = (Inr fig, w1)" by (rule sc)
    show "mkdir (parent out) True True (filesystem w1) = Inr fs2" by (rule mk)
    show "savefig lib fig out ''png'' 144 (w1\<lparr>filesystem := fs2\<rparr>) = Inr w3" by (rule sv)
    show "w' = plt_close fig w3" by (rule cl)
    show "is_dir (filesystem w') (parent out)" by (rule dir)
    show "filesystem w' out = Some (File (print_figure lib fig ''png'' 144))" by (rule written)
    show "\<forall>q. q \<noteq> out \<and> filesystem w q \<noteq> None \<longrightarrow> filesystem w' q = filesystem w q"
      by (rule frame)
    show "fig_number fig \<notin> set (open_figures w')" by (rule closed)
    show "open_figures w' = open_figures w" by (rule same)
  qed
qed

lemma mkdir_out_plots:
  "mkdir [''out'', ''plots''] True True Map.empty =
     Inr [[''out''] \<mapsto> Dir, [''out'', ''plots''] \<mapsto> Dir]"
  by (simp add: mkdir.simps os_mkdir_def path_exists_def is_dir_def parent_def str_path_def)

lemma run_cli_sample_nested:
  "run_cli (stub_library sample_df) None None None [''out'', ''plots'', ''plot.png''] empty_world =
     (Inr [''out'', ''plots'', ''plot.png''],
      \<lparr>filesystem = [[''out''] \<mapsto> Dir, [''out'', ''plots''] \<mapsto> Dir,
                      [''out'', ''plots'', ''plot.png''] \<mapsto> File ''PNG''],
       open_figures = []\<rparr>)"
proof -
  have sc: "scatter_figure (stub_library sample_df) sample_df ''x'' ''y'' empty_world =
      (Inr \<lparr>fig_number = Suc 0,
            fig_points = [(IntCell 1, IntCell 2), (IntCell 2, IntCell 1), (IntCell 3, IntCell 3),
                          (IntCell 4, IntCell 5), (IntCell 5, IntCell 4)],
            fig_title = ''Scatter: x vs y'', fig_tight = True\<rparr>,
       \<lparr>filesystem = Map.empty, open_figures = [Suc 0]\<rparr>)"
    by (simp add: scatter_figure_def sample_df_def columns_def plt_subplots_def
        sns_scatterplot_def select_column_def set_title_def tight_layout_def empty_world_def
        Let_def)
  have ex: "export_figure (stub_library sample_df) fig [''out'', ''plots'', ''plot.png'']
        \<lparr>filesystem = Map.empty, open_figures = [Suc 0]\<rparr> =
      (Inr [''out'', ''plots'', ''plot.png''],
       \<lparr>filesystem = [[''out''] \<mapsto> Dir, [''out'', ''plots''] \<mapsto> Dir,
                       [''out'', ''plots'', ''plot.png''] \<mapsto> File ''PNG''],
        open_figures = []\<rparr>)"
    if "fig_number fig = Suc 0" for fig
    using that
    by (simp add: export_figure_def parent_def mkdir_out_plots [unfolded parent_def] savefig_def
        is_dir_def path_exists_def stub_library_def plt_close_def)
  show ?thesis
    by (simp add: run_cli_def load_def sample_df_numeric choose_axes_def sc ex)
qed

theorem run_cli_success_witness:
  "run_cli (stub_library sample_df) None None None [''out'', ''plots'', ''plot.png''] empty_world =
     (Inr [''out'', ''plots'', ''plot.png''],
      \<lparr>filesystem = [[''out''] \<mapsto> Dir, [''out'', ''plots''] \<mapsto> Dir,
                      [''out'', ''plots'', ''plot.png''] \<mapsto> File ''PNG''],
       open_figures = []\<rparr>)
   \<and> \<not> is_dir (filesystem empty_world) (parent [''out'', ''plots'', ''plot.png''])
   \<and> is_dir [[''out''] \<mapsto> Dir, [''out'', ''plots''] \<mapsto> Dir,
              [''out'', ''plots'', ''plot.png''] \<mapsto> File ''PNG'']
        (parent [''out'', ''plots'', ''plot.png''])"
  using run_cli_success [OF run_cli_sample_nested] run_cli_sample_nested
  by (simp add: is_dir_def parent_def empty_world_def)

section \<open>Properties of the entry dispatcher\<close>

lemma cli_run_ran: "ran (fst (cli_run lib a before w)) = Headless"
  by (simp add: cli_run_def split: prod.splits sum.splits)

text \<open>
  Claim C5, evaluated where the code departs from it. With the interactive framework
  available, the x name given as the empty text and nothing else given, a headless
  argument has a value that is not its default, yet the interactive variant runs.
\<close>

theorem main_empty_x_runs_interactive:
  "main lib True \<lparr>arg_csv = None, arg_x = Some [], arg_y = None, arg_out = [''plot.png''],
       arg_test = False\<rparr> w =
     (\<lparr>ran = Interactive, printed = [], raised = None\<rparr>, w)"
  by (simp add: main_def truthy_path_def truthy_str_def)

text \<open>
  Claim C10. With the interactive framework available and outside the self-test, the
  interactive variant runs exactly when no input path is given, the x name and the y name
  are each unset or the empty text, and the output path equals the default: the test is
  on the truth value of the arguments, so an x or y given as the empty text does not
  select the headless variant.
\<close>

theorem main_truthiness:
  assumes "\<not> arg_test a"
  shows "ran (fst (main lib True a w)) = Interactive \<longleftrightarrow>
      arg_csv a = None
    \<and> (arg_x a = None \<or> arg_x a = Some [])
    \<and> (arg_y a = None \<or> arg_y a = Some [])
    \<and> arg_out a = [''plot.png'']"
  using assms
  by (auto simp: main_def truthy_path_def truthy_str_def cli_run_ran split: option.splits)

theorem main_truthiness_witness:
  "ran (fst (main (stub_library sample_df) True
       \<lparr>arg_csv = None, arg_x = Some [], arg_y = Some [], arg_out = [''plot.png''],
        arg_test = False\<rparr> empty_world)) = Interactive"
  using main_truthiness [of "\<lparr>arg_csv = None, arg_x = Some [], arg_y = Some [],
        arg_out = [''plot.png''], arg_test = False\<rparr>" "stub_library sample_df" empty_world]
  by simp

lemma main_without_streamlit:
  assumes "\<not> arg_test a"
  shows "ran (fst (main lib False a w)) = Headless"
  using assms by (simp add: main_def cli_run_ran)

end
